theory Spec2Isabelle
  imports Main
begin

section \<open>Higher order functions (nocs-04-hof.js)\<close>

text \<open>
  JavaScript arrays are modelled as HOL lists and JavaScript strings as \<open>string\<close>
  (a list of code units, so that \<open>length\<close> is the source's \<open>.length\<close>).

  The first-order \<open>censor\<close> of the source is a \<open>for\<close> loop over an index \<open>i\<close> that
  pushes onto \<open>filtered\<close>; \<open>censor_iter\<close> is that loop with its two variables as
  arguments, and \<open>censor_loop\<close> enters it at \<open>i = 0\<close> with \<open>filtered = []\<close>.
\<close>

function censor_iter :: "string list \<Rightarrow> nat \<Rightarrow> string list \<Rightarrow> string list" where
  "censor_iter words i filtered =
     (if i < length words
      then (let word = words ! i
            in censor_iter words (i + 1)
                 (if length word \<noteq> 4 then filtered @ [word] else filtered))
      else filtered)"
  by pat_completeness auto
termination
  by (relation "measure (\<lambda>(words, i, filtered). length words - i)") auto

declare censor_iter.simps [simp del]

definition censor_loop :: "string list \<Rightarrow> string list" where
  "censor_loop words = censor_iter words 0 []"

text \<open>
  \<open>reduce(reducer, initial, arr)\<close>: the accumulating \<open>for\<close> loop of the source, again
  with the loop variables \<open>i\<close> and \<open>acc\<close> as arguments.
\<close>

function reduce_iter :: "('b \<Rightarrow> 'a \<Rightarrow> 'b) \<Rightarrow> 'a list \<Rightarrow> nat \<Rightarrow> 'b \<Rightarrow> 'b" where
  "reduce_iter reducer arr i acc =
     (if i < length arr
      then reduce_iter reducer arr (i + 1) (reducer acc (arr ! i))
      else acc)"
  by pat_completeness auto
termination
  by (relation "measure (\<lambda>(reducer, arr, i, acc). length arr - i)") auto

declare reduce_iter.simps [simp del]

definition reduce :: "('b \<Rightarrow> 'a \<Rightarrow> 'b) \<Rightarrow> 'b \<Rightarrow> 'a list \<Rightarrow> 'b" where
  "reduce reducer initial arr = reduce_iter reducer arr 0 initial"

text \<open>\<open>filter(fn, arr)\<close> of nocs-04-hof.js, written with \<open>reduce\<close>; \<open>acc.concat([curr])\<close> is \<open>acc @ [curr]\<close>.\<close>

definition filter_hof :: "('a \<Rightarrow> bool) \<Rightarrow> 'a list \<Rightarrow> 'a list" where
  "filter_hof fn arr = reduce (\<lambda>acc curr. if fn curr then acc @ [curr] else acc) [] arr"

text \<open>The second \<open>censor\<close> of nocs-04-hof.js, built from \<open>filter\<close>.\<close>

definition censor :: "string list \<Rightarrow> string list" where
  "censor words = filter_hof (\<lambda>word. length word \<noteq> 4) words"

section \<open>Reduce (the notes on the Reduce article)\<close>

text \<open>
  The built-in \<open>Array.prototype.reduce\<close> and \<open>Array.prototype.reduceRight\<close>, called with
  an initial value: \<open>reduce\<close> visits the elements from index 0 upwards, \<open>reduceRight\<close> from
  the last index downwards; each passes the accumulator first and the element second.
  (The callbacks of the source that are modelled here ignore the index and array
  arguments.)
\<close>

fun array_reduce :: "('b \<Rightarrow> 'a \<Rightarrow> 'b) \<Rightarrow> 'b \<Rightarrow> 'a list \<Rightarrow> 'b" where
  "array_reduce cb acc [] = acc"
| "array_reduce cb acc (item # arr) = array_reduce cb (cb acc item) arr"

fun array_reduceRight :: "('b \<Rightarrow> 'a \<Rightarrow> 'b) \<Rightarrow> 'b \<Rightarrow> 'a list \<Rightarrow> 'b" where
  "array_reduceRight cb acc [] = acc"
| "array_reduceRight cb acc (item # arr) = cb (array_reduceRight cb acc arr) item"

text \<open>\<open>filter(fn, arr)\<close> of the Reduce notes, written with the built-in \<open>arr.reduce\<close>.\<close>

definition filter_reduce :: "('a \<Rightarrow> bool) \<Rightarrow> 'a list \<Rightarrow> 'a list" where
  "filter_reduce fn arr =
     array_reduce (\<lambda>newArr item. if fn item then newArr @ [item] else newArr) [] arr"

text \<open>
  \<open>compose(...fns)\<close> and \<open>pipe(...fns)\<close>: the rest parameter is the list \<open>fns\<close>; both
  return a function of \<open>x\<close>. A HOL list is homogeneous, so the functions share one type
  \<open>'a \<Rightarrow> 'a\<close>.
\<close>

definition compose :: "('a \<Rightarrow> 'a) list \<Rightarrow> 'a \<Rightarrow> 'a" where
  "compose fns x = array_reduceRight (\<lambda>v f. f v) x fns"

definition pipe :: "('a \<Rightarrow> 'a) list \<Rightarrow> 'a \<Rightarrow> 'a" where
  "pipe fns x = array_reduce (\<lambda>v f. f v) x fns"

text \<open>The numbers of the examples are small integers, on which JavaScript's arithmetic is exact.\<close>

definition add1 :: "int \<Rightarrow> int" where
  "add1 n = n + 1"

definition double :: "int \<Rightarrow> int" where
  "double n = n * 2"

definition add1ThenDoubleWithCompose :: "int \<Rightarrow> int" where
  "add1ThenDoubleWithCompose = compose [double, add1]"

definition add1ThenDouble :: "int \<Rightarrow> int" where
  "add1ThenDouble = pipe [add1, double]"

definition doubleThenAdd1 :: "int \<Rightarrow> int" where
  "doubleThenAdd1 = pipe [double, add1]"

section \<open>Redux-style reducer (the notes on the Reduce article)\<close>

datatype error = TypeError

text \<open>
  The values that the reducer adds are JavaScript values of the run time, and \<open>+\<close> is the
  run time's operator on them (on numbers, the addition of double-precision floats). The
  model takes both as given: \<open>'v\<close> is any type of defined values with a \<open>0\<close>, a \<open>1\<close> and
  a \<open>+\<close>, and nothing is assumed of them. The value \<open>undefined\<close> is kept apart: an
  argument is \<open>None\<close> when it is omitted or \<open>undefined\<close>, and \<open>Some\<close> of its value
  otherwise.

  An action object: \<open>action_type\<close> is its \<open>type\<close> when that is a string, and \<open>None\<close> when
  the property is absent (as in \<open>{}\<close>) or holds a value of another kind, which \<open>===\<close>
  tells apart from every string; \<open>action_payload\<close> is absent or an object
  \<open>{ value: v }\<close> with a defined \<open>v\<close>.
\<close>

datatype 'v payload = Payload (payload_value: 'v)

record 'v action =
  action_type :: "string option"
  action_payload :: "'v payload option"

definition ADD_VALUE :: string where
  "ADD_VALUE = ''ADD_VALUE''"

definition empty_action :: "'v action" where
  "empty_action = \<lparr>action_type = None, action_payload = None\<rparr>"

text \<open>
  \<open>summingReducer(state = 0, action = {})\<close>: the default of a parameter is taken when the
  argument is omitted or \<open>undefined\<close>. The \<open>switch\<close> compares \<open>type\<close> with \<open>===\<close>. Reading
  \<open>payload.value\<close> of an absent payload throws a TypeError.
\<close>

definition summingReducer ::
  "('v::{zero,plus}) option \<Rightarrow> 'v action option \<Rightarrow> error + 'v" where
  "summingReducer state_arg action_arg =
     (let state = (case state_arg of None \<Rightarrow> 0 | Some s \<Rightarrow> s);
          action = (case action_arg of None \<Rightarrow> empty_action | Some a \<Rightarrow> a)
      in if action_type action = Some ADD_VALUE
         then (case action_payload action of
                 None \<Rightarrow> Inl TypeError
               | Some p \<Rightarrow> Inr (state + payload_value p))
         else Inr state)"

definition actions :: "('v::one) action list" where
  "actions =
     [\<lparr>action_type = Some ''ADD_VALUE'', action_payload = Some (Payload 1)\<rparr>,
      \<lparr>action_type = Some ''ADD_VALUE'', action_payload = Some (Payload 1)\<rparr>,
      \<lparr>action_type = Some ''ADD_VALUE'', action_payload = Some (Payload 1)\<rparr>]"

text \<open>
  \<open>actions.reduce(summingReducer, 0)\<close>: the built-in reduce calls the reducer with the
  accumulator and the element; an exception thrown by the reducer ends the reduction.
  The accumulator is the initial value or a result of the reducer, never \<open>undefined\<close>.
\<close>

definition reduce_actions :: "('v::{zero,plus}) \<Rightarrow> 'v action list \<Rightarrow> error + 'v" where
  "reduce_actions initial arr =
     array_reduce
       (\<lambda>acc a. case acc of Inl e \<Rightarrow> Inl e | Inr s \<Rightarrow> summingReducer (Some s) (Some a))
       (Inr initial) arr"

section \<open>Functors (nocs-06-functors.js)\<close>

text \<open>
  \<open>Identity(value)\<close> returns an object that closes over \<open>value\<close>; the object is
  determined by that value, so it is a one-constructor datatype. \<open>Identity_map\<close> is its
  \<open>map\<close> method and the selector \<open>valueOf\<close> its \<open>valueOf\<close> method (added in the second
  version of \<open>Identity\<close> in the source).
\<close>

datatype 'a identity = Identity (valueOf: 'a)

fun Identity_map :: "'a identity \<Rightarrow> ('a \<Rightarrow> 'b) \<Rightarrow> 'b identity" where
  "Identity_map (Identity v) fn = Identity (fn v)"

text \<open>The example of the source: \<open>u = Identity(2)\<close>, \<open>f = n => n + 1\<close>, \<open>g = n => n * 2\<close>.\<close>

definition functors_u :: "int identity" where
  "functors_u = Identity 2"

definition functors_f :: "int \<Rightarrow> int" where
  "functors_f n = n + 1"

definition functors_g :: "int \<Rightarrow> int" where
  "functors_g n = n * 2"

definition r1 :: "int identity" where
  "r1 = Identity_map functors_u (\<lambda>x. functors_f (functors_g x))"

definition r2 :: "int identity" where
  "r2 = Identity_map (Identity_map functors_u functors_g) functors_f"

section \<open>Functional mixins (the notes on the Functional Mixins article)\<close>

text \<open>
  JavaScript values that the mixins pass around. \<open>number\<close> is the type of the run time's
  numbers, of which nothing is assumed. \<open>Builtin\<close> stands for a function or object of the
  run time, named by its path, such as \<open>Object.prototype.toString\<close>, and \<open>JObject\<close> for
  any other object or function, known by its identity only.
\<close>

typedecl number

datatype jsval =
    Undefined
  | Null
  | JBool bool
  | JNum number
  | JStr string
  | Builtin string
  | JObject nat

text \<open>
  The state that the snippets can change: the closure variables \<open>isFlying\<close> (one cell for
  each call of \<open>flying\<close>, allocated at \<open>next_cell\<close>) and the lines written to the console.
\<close>

record world =
  cells :: "nat \<Rightarrow> bool"
  next_cell :: nat
  console :: "string list"

text \<open>
  A configuration object is modelled by its property read \<open>config[key]\<close>, a function
  from keys to values that gives \<open>Undefined\<close> where the read finds nothing. It stands for
  the whole lookup, inherited properties included; a read has no effect, so that the two
  reads of \<open>config[key]\<close> in \<open>get\<close> give the same value.
\<close>

type_synonym config_obj = "string \<Rightarrow> jsval"

text \<open>
  The property read of \<open>Object.prototype\<close>, from which an object literal inherits: its
  members are built-in functions, and \<open>__proto__\<close> reads as \<open>Object.prototype\<close> itself.
\<close>

definition Object_prototype :: "config_obj" where
  "Object_prototype key =
     (if key = ''__proto__'' then Builtin ''Object.prototype''
      else if key \<in> set [''constructor'', ''hasOwnProperty'', ''isPrototypeOf'',
                          ''propertyIsEnumerable'', ''toLocaleString'', ''toString'',
                          ''valueOf'', ''__defineGetter__'', ''__defineSetter__'',
                          ''__lookupGetter__'', ''__lookupSetter__'']
      then Builtin (''Object.prototype.'' @ key)
      else Undefined)"

text \<open>An object literal with the given own properties: an own property wins over an inherited one.\<close>

definition object_literal :: "(string \<rightharpoonup> jsval) \<Rightarrow> config_obj" where
  "object_literal own key = (case own key of Some v \<Rightarrow> v | None \<Rightarrow> Object_prototype key)"

text \<open>\<open>v == undefined\<close> holds of \<open>undefined\<close> and \<open>null\<close> only.\<close>

definition loose_eq_undefined :: "jsval \<Rightarrow> bool" where
  "loose_eq_undefined v = (v = Undefined \<or> v = Null)"

text \<open>
  The property names that the mixins of the source define, and the function values that
  they store under them: the three closures of \<open>flying\<close> over one cell, the closure of
  \<open>quacking\<close> over \<open>quack\<close>, the \<open>log\<close> method over \<open>logger\<close> and the \<open>get\<close> method over
  \<open>config\<close>. A logger is modelled by its effect on the world when it returns (a logger
  that throws is not modelled). An object is the map from
  these names to the function values it holds; none of the names is inherited from
  \<open>Object.prototype\<close> or found on a primitive value.
\<close>

datatype propname = fly | isFlying | land | quack | log | get

datatype jsfun =
    Fly nat
  | IsFlying nat
  | Land nat
  | Quack "jsval"
  | Log "string \<Rightarrow> world \<Rightarrow> world"
  | Get "config_obj"

type_synonym obj = "propname \<rightharpoonup> jsfun"

datatype ret = Val "jsval" | Ref "obj"

text \<open>\<open>Object.assign({}, o, src)\<close>: a fresh object with the properties of \<open>o\<close>, then those of \<open>src\<close>; the last one wins.\<close>

definition assign :: "obj \<Rightarrow> obj \<Rightarrow> obj" where
  "assign ob src = Map.empty ++ ob ++ src"

text \<open>
  The method call \<open>this.name(arg)\<close> in world \<open>w\<close>. The methods of the source take at most
  one argument, a string (the key of \<open>get\<close>, the text of \<open>log\<close>); the others ignore it.
  Calling a property that is absent throws a TypeError. \<open>fly\<close> and \<open>land\<close> assign the
  closure variable and return \<open>this\<close>; \<open>get\<close> calls \<open>this.log\<close>, whatever is stored there,
  so the call need not return in general: the result is \<open>None\<close> when it does not.
\<close>

partial_function (option) call_method ::
  "obj \<Rightarrow> propname \<Rightarrow> string \<Rightarrow> world \<Rightarrow> (error + ret \<times> world) option" where
  "call_method this name arg w =
     (case this name of
        None \<Rightarrow> Some (Inl TypeError)
      | Some (Fly c) \<Rightarrow> Some (Inr (Ref this, w\<lparr>cells := (cells w)(c := True)\<rparr>))
      | Some (IsFlying c) \<Rightarrow> Some (Inr (Val (JBool (cells w c)), w))
      | Some (Land c) \<Rightarrow> Some (Inr (Ref this, w\<lparr>cells := (cells w)(c := False)\<rparr>))
      | Some (Quack q) \<Rightarrow> Some (Inr (Val q, w))
      | Some (Log logger) \<Rightarrow> Some (Inr (Val Undefined, logger arg w))
      | Some (Get config) \<Rightarrow>
          (if loose_eq_undefined (config arg)
           then call_method this log (''Missing config key: '' @ arg) w
           else Some (Inr (Val (config arg), w))))"

declare call_method.simps [code]

text \<open>
  A chained call \<open>r.name(arg)\<close> on the result \<open>r\<close> of an earlier call; a primitive value
  has no property of these names, so the call throws on it.
\<close>

definition then_call ::
  "(error + ret \<times> world) option \<Rightarrow> propname \<Rightarrow> string
     \<Rightarrow> (error + ret \<times> world) option" where
  "then_call r name arg =
     (case r of
        None \<Rightarrow> None
      | Some (Inl e) \<Rightarrow> Some (Inl e)
      | Some (Inr (Val v, w)) \<Rightarrow> Some (Inl TypeError)
      | Some (Inr (Ref ob, w)) \<Rightarrow> call_method ob name arg w)"

text \<open>
  Two statements in sequence: the second runs in the world that the first has left; an
  exception of the first ends the sequence.
\<close>

definition seq ::
  "(error + ret \<times> world) option \<Rightarrow> (world \<Rightarrow> (error + ret \<times> world) option)
     \<Rightarrow> (error + ret \<times> world) option" where
  "seq r k =
     (case r of
        None \<Rightarrow> None
      | Some (Inl e) \<Rightarrow> Some (Inl e)
      | Some (Inr (v, w)) \<Rightarrow> k w)"

text \<open>The value that a call returns, when it returns normally.\<close>

definition returned :: "(error + ret \<times> world) option \<Rightarrow> ret option" where
  "returned r = (case r of Some (Inr (v, w)) \<Rightarrow> Some v | Some (Inl e) \<Rightarrow> None | None \<Rightarrow> None)"

text \<open>\<open>flying(o)\<close>: \<open>let isFlying = false\<close> allocates a fresh cell; the three methods close over it.\<close>

definition flying :: "obj \<Rightarrow> world \<Rightarrow> obj \<times> world" where
  "flying ob w =
     (let c = next_cell w
      in (assign ob [fly \<mapsto> Fly c, isFlying \<mapsto> IsFlying c, land \<mapsto> Land c],
          w\<lparr>cells := (cells w)(c := False), next_cell := Suc c\<rparr>))"

definition quacking :: "jsval \<Rightarrow> obj \<Rightarrow> obj" where
  "quacking q ob = assign ob [quack \<mapsto> Quack q]"

text \<open>\<open>createDuck = quack => quacking(quack)(flying({}))\<close>, with the world threaded through \<open>flying\<close>.\<close>

definition createDuck :: "jsval \<Rightarrow> world \<Rightarrow> obj \<times> world" where
  "createDuck q w =
     (case flying Map.empty w of (ob, w') \<Rightarrow> (quacking q ob, w'))"

text \<open>
  \<open>createDuckWithPipe\<close>: the same \<open>pipe\<close> as above, over pairs of an object and a world;
  \<open>flying\<close> acts on both, the pure \<open>quacking(quack)\<close> on the object only.
\<close>

definition createDuckWithPipe :: "jsval \<Rightarrow> world \<Rightarrow> obj \<times> world" where
  "createDuckWithPipe q w =
     pipe [\<lambda>(ob, w'). flying ob w', \<lambda>(ob, w'). (quacking q ob, w')] (Map.empty, w)"

definition withLogging :: "(string \<Rightarrow> world \<Rightarrow> world) \<Rightarrow> obj \<Rightarrow> obj" where
  "withLogging logger ob = assign ob [log \<mapsto> Log logger]"

definition addConfig :: "config_obj \<Rightarrow> obj \<Rightarrow> obj" where
  "addConfig config ob = assign ob [get \<mapsto> Get config]"

text \<open>
  \<open>withConfig\<close> and \<open>createConfig\<close> take one object \<open>{ initialConfig, logger }\<close>; its two
  properties are the two arguments here.
\<close>

definition withConfig :: "config_obj \<Rightarrow> (string \<Rightarrow> world \<Rightarrow> world) \<Rightarrow> obj \<Rightarrow> obj" where
  "withConfig initialConfig logger ob = pipe [withLogging logger, addConfig initialConfig] ob"

definition createConfig :: "config_obj \<Rightarrow> (string \<Rightarrow> world \<Rightarrow> world) \<Rightarrow> obj" where
  "createConfig initialConfig logger = withConfig initialConfig logger Map.empty"

text \<open>
  The examples of the source. \<open>world0\<close> is the world before any snippet has run;
  \<open>console_log\<close> writes a line to the console, and the source's \<open>logger\<close> is
  \<open>console.log.bind(console)\<close>.
\<close>

definition world0 :: world where
  "world0 = \<lparr>cells = (\<lambda>c. False), next_cell = 0, console = []\<rparr>"

definition console_log :: "string \<Rightarrow> world \<Rightarrow> world" where
  "console_log text w = w\<lparr>console := console w @ [text]\<rparr>"

definition bird :: "obj \<times> world" where
  "bird = flying Map.empty world0"

definition duck :: "obj \<times> world" where
  "duck = createDuck (JStr ''Quack!'') world0"

definition initialConfig :: "config_obj" where
  "initialConfig = object_literal [''host'' \<mapsto> JStr ''localhost'']"

definition logger :: "string \<Rightarrow> world \<Rightarrow> world" where
  "logger = console_log"

definition config :: "obj" where
  "config = createConfig initialConfig logger"

section \<open>Properties of the pure helpers\<close>

lemma array_reduce_append:
  "array_reduce cb acc (xs @ ys) = array_reduce cb (array_reduce cb acc xs) ys"
  by (induction xs arbitrary: acc) simp_all

lemma array_reduceRight_append:
  "array_reduceRight cb acc (xs @ ys) = array_reduceRight cb (array_reduceRight cb acc ys) xs"
  by (induction xs) simp_all

lemma array_reduceRight_rev: "array_reduceRight cb acc (rev xs) = array_reduce cb acc xs"
  by (induction xs arbitrary: acc) (simp_all add: array_reduceRight_append)

lemma array_reduce_filter:
  "array_reduce (\<lambda>acc x. if P x then acc @ [x] else acc) acc xs = acc @ filter P xs"
  by (induction xs arbitrary: acc) simp_all

lemma reduce_iter_array_reduce:
  "reduce_iter reducer arr i acc = array_reduce reducer acc (drop i arr)"
proof (induction reducer arr i acc rule: reduce_iter.induct)
  case (1 reducer arr i acc)
  show ?case
  proof (cases "i < length arr")
    case True
    then have "drop i arr = arr ! i # drop (i + 1) arr"
      by (simp add: Cons_nth_drop_Suc)
    with True "1" show ?thesis
      by (subst reduce_iter.simps) simp
  next
    case False
    then show ?thesis
      by (subst reduce_iter.simps) simp
  qed
qed

lemma reduce_array_reduce: "reduce reducer initial arr = array_reduce reducer initial arr"
  by (simp add: reduce_def reduce_iter_array_reduce)

lemma censor_iter_filter:
  "censor_iter words i filtered = filtered @ filter (\<lambda>word. length word \<noteq> 4) (drop i words)"
proof (induction words i filtered rule: censor_iter.induct)
  case (1 words i filtered)
  show ?case
  proof (cases "i < length words")
    case True
    then have d: "drop i words = words ! i # drop (i + 1) words"
      by (simp add: Cons_nth_drop_Suc)
    from True "1" [OF True refl] show ?thesis
      by (subst censor_iter.simps) (simp add: d Let_def)
  next
    case False
    then show ?thesis
      by (subst censor_iter.simps) simp
  qed
qed

lemma filter_hof_filter: "filter_hof fn arr = filter fn arr"
  by (simp add: filter_hof_def reduce_array_reduce array_reduce_filter)

lemma filter_reduce_filter: "filter_reduce fn arr = filter fn arr"
  by (simp add: filter_reduce_def array_reduce_filter)

text \<open>
  C1. \<open>pipe\<close> applies its functions left to right and \<open>compose\<close> right to left: the
  empty pipeline is the identity, \<open>pipe(f1, ..., fn, f)(x) = f(pipe(f1, ..., fn)(x))\<close> and
  \<open>compose(f, f1, ..., fn)(x) = f(compose(f1, ..., fn)(x))\<close>, so \<open>pipe\<close> is \<open>compose\<close> of the
  reversed list. For two functions \<open>compose(f, g)(x) = f(g(x)) = pipe(g, f)(x)\<close>, and the
  three examples of the source evaluate to 6, 6 and 5.
\<close>

theorem pipe_compose_fold_semantics:
  "pipe [] x = x
   \<and> pipe (fns @ [f]) x = f (pipe fns x)
   \<and> pipe (f # fns) x = pipe fns (f x)
   \<and> compose [] x = x
   \<and> compose (f # fns) x = f (compose fns x)
   \<and> compose (fns @ [f]) x = compose fns (f x)
   \<and> pipe fns x = compose (rev fns) x
   \<and> compose [f, g] x = f (g x)
   \<and> pipe [g, f] x = f (g x)
   \<and> add1ThenDoubleWithCompose 2 = 6
   \<and> add1ThenDouble 2 = 6
   \<and> doubleThenAdd1 2 = 5"
  by (simp add: pipe_def compose_def array_reduce_append array_reduceRight_append
      array_reduceRight_rev add1ThenDoubleWithCompose_def add1ThenDouble_def
      doubleThenAdd1_def add1_def double_def)

text \<open>
  C6. The \<open>censor\<close> built from \<open>filter\<close> and \<open>reduce\<close> returns exactly the words whose
  length is not 4, in their original order, and agrees with the first-order loop on every
  array of strings; the \<open>filter\<close> of the Reduce notes (over the built-in \<open>arr.reduce\<close>)
  computes the same; on \<open>['oops', 'gasp', 'shout', 'sun']\<close> both give \<open>['shout', 'sun']\<close>.
\<close>

theorem censor_refines_loop:
  "censor words = filter (\<lambda>word. length word \<noteq> 4) words
   \<and> censor words = censor_loop words
   \<and> filter_reduce (\<lambda>word. length word \<noteq> 4) words = censor words
   \<and> censor [''oops'', ''gasp'', ''shout'', ''sun''] = [''shout'', ''sun'']
   \<and> censor_loop [''oops'', ''gasp'', ''shout'', ''sun''] = [''shout'', ''sun'']"
  by (simp add: censor_def censor_loop_def filter_hof_filter filter_reduce_filter
      censor_iter_filter)

section \<open>Properties of the reducer and the functor\<close>

text \<open>
  C7. \<open>summingReducer\<close> follows the reducer rules, for every type of values and whatever
  the run time's \<open>+\<close> on them is. With no arguments it returns the initial state 0. For
  every action whose type is not \<open>'ADD_VALUE'\<close> (the empty action \<open>{}\<close> and the omitted
  action among them) it returns the state \<open>s\<close> it was given, and the initial state 0 when
  the state is \<open>undefined\<close>. For \<open>{ type: 'ADD_VALUE', payload: { value: v } }\<close> it returns
  \<open>s + v\<close>. Reducing the three actions of the source from 0 gives \<open>0 + 1 + 1 + 1\<close>, which
  is 3 on the integers (where the run time's addition is exact).
\<close>

theorem summingReducer_reducer_rules:
  "summingReducer None None = Inr (0 :: 'v :: {zero,one,plus})
   \<and> (action_type a \<noteq> Some ''ADD_VALUE'' \<longrightarrow>
        summingReducer (Some s) (Some a) = Inr (s :: 'v)
        \<and> summingReducer None (Some a) = Inr (0 :: 'v))
   \<and> summingReducer (Some s) (Some empty_action) = Inr s
   \<and> summingReducer (Some s) None = Inr s
   \<and> summingReducer (Some s)
        (Some \<lparr>action_type = Some ''ADD_VALUE'', action_payload = Some (Payload v)\<rparr>)
      = Inr (s + v)
   \<and> reduce_actions (0 :: 'v) actions = Inr (0 + 1 + 1 + 1)
   \<and> reduce_actions (0 :: int) actions = Inr 3"
  by (simp add: summingReducer_def ADD_VALUE_def empty_action_def reduce_actions_def
      actions_def)

text \<open>The rule for unhandled actions, at the state 7 and an action of type \<open>'SUBTRACT'\<close>.\<close>

theorem summingReducer_reducer_rules_witness:
  "action_type \<lparr>action_type = Some ''SUBTRACT'', action_payload = None\<rparr> \<noteq> Some ''ADD_VALUE''
   \<and> summingReducer (Some (7 :: int))
        (Some \<lparr>action_type = Some ''SUBTRACT'', action_payload = None\<rparr>)
       = Inr 7
   \<and> summingReducer None (Some \<lparr>action_type = Some ''SUBTRACT'', action_payload = None\<rparr>)
       = Inr (0 :: int)"
  using summingReducer_reducer_rules
    [where a = "\<lparr>action_type = Some ''SUBTRACT'', action_payload = None\<rparr>"
       and s = "7 :: int"]
  by simp

text \<open>
  C5. \<open>Identity\<close> satisfies the functor laws: mapping \<open>x => x\<close> over \<open>Identity(v)\<close> gives
  an object that holds \<open>v\<close> again, and mapping \<open>x => f(g(x))\<close> gives the same as mapping
  \<open>g\<close> and then \<open>f\<close>; in the example of the source both \<open>r1\<close> and \<open>r2\<close> hold 5.
\<close>

theorem Identity_functor_laws:
  "Identity_map (Identity v) (\<lambda>x. x) = Identity v
   \<and> valueOf (Identity_map (Identity v) (\<lambda>x. x)) = valueOf (Identity v)
   \<and> Identity_map (Identity v) (\<lambda>x. f (g x)) = Identity_map (Identity_map (Identity v) g) f
   \<and> valueOf (Identity_map (Identity v) (\<lambda>x. f (g x)))
       = valueOf (Identity_map (Identity_map (Identity v) g) f)
   \<and> valueOf r1 = 5
   \<and> valueOf r2 = 5"
  by (simp add: r1_def r2_def functors_u_def functors_f_def functors_g_def)

section \<open>Properties of the functional mixins\<close>

lemma assign_apply: "assign ob src k = (case src k of None \<Rightarrow> ob k | Some m \<Rightarrow> Some m)"
  by (simp add: assign_def map_add_def)

lemma flying_fst:
  "fst (flying ob w) =
     assign ob [fly \<mapsto> Fly (next_cell w), isFlying \<mapsto> IsFlying (next_cell w),
                land \<mapsto> Land (next_cell w)]"
  by (simp add: flying_def Let_def)

lemma flying_snd:
  "snd (flying ob w) =
     w\<lparr>cells := (cells w)(next_cell w := False), next_cell := Suc (next_cell w)\<rparr>"
  by (simp add: flying_def Let_def)

lemma flying_methods:
  "fst (flying ob w) fly = Some (Fly (next_cell w))"
  "fst (flying ob w) isFlying = Some (IsFlying (next_cell w))"
  "fst (flying ob w) land = Some (Land (next_cell w))"
  by (simp_all add: flying_fst assign_apply)

lemma call_fly:
  "this fly = Some (Fly c) \<Longrightarrow>
   call_method this fly arg w = Some (Inr (Ref this, w\<lparr>cells := (cells w)(c := True)\<rparr>))"
  by (subst call_method.simps) simp

lemma call_land:
  "this land = Some (Land c) \<Longrightarrow>
   call_method this land arg w = Some (Inr (Ref this, w\<lparr>cells := (cells w)(c := False)\<rparr>))"
  by (subst call_method.simps) simp

lemma call_isFlying:
  "this isFlying = Some (IsFlying c) \<Longrightarrow>
   call_method this isFlying arg w = Some (Inr (Val (JBool (cells w c)), w))"
  by (subst call_method.simps) simp

lemma call_quack:
  "this quack = Some (Quack q) \<Longrightarrow>
   call_method this quack arg w = Some (Inr (Val q, w))"
  by (subst call_method.simps) simp

lemma call_log:
  "this log = Some (Log lg) \<Longrightarrow>
   call_method this log arg w = Some (Inr (Val Undefined, lg arg w))"
  by (subst call_method.simps) simp

lemma call_get:
  "this get = Some (Get cfg) \<Longrightarrow>
   call_method this get key w =
     (if loose_eq_undefined (cfg key)
      then call_method this log (''Missing config key: '' @ key) w
      else Some (Inr (Val (cfg key), w)))"
  by (subst call_method.simps) simp

lemma then_call_Ref: "then_call (Some (Inr (Ref ob, w))) name arg = call_method ob name arg w"
  by (simp add: then_call_def)

lemma seq_Inr: "seq (Some (Inr (v, w))) k = k w"
  by (simp add: seq_def)

lemma withConfig_unfold: "withConfig ic lg ob = addConfig ic (withLogging lg ob)"
  by (simp add: withConfig_def pipe_def)

lemma withConfig_methods:
  "withConfig ic lg ob log = Some (Log lg)"
  "withConfig ic lg ob get = Some (Get ic)"
  by (simp_all add: withConfig_unfold addConfig_def withLogging_def assign_apply)

lemma createDuck_unfold:
  "createDuck q w = (quacking q (fst (flying Map.empty w)), snd (flying Map.empty w))"
  by (cases "flying Map.empty w") (simp add: createDuck_def)

lemma createDuck_methods:
  "fst (createDuck q w) fly = Some (Fly (next_cell w))"
  "fst (createDuck q w) isFlying = Some (IsFlying (next_cell w))"
  "fst (createDuck q w) land = Some (Land (next_cell w))"
  "fst (createDuck q w) quack = Some (Quack q)"
  by (simp_all add: createDuck_unfold quacking_def assign_apply flying_methods)

text \<open>
  The composed factories of the notes. \<open>createDuck(quack)\<close> is \<open>quacking(quack)\<close> applied
  to the output of \<open>flying({})\<close>, and \<open>createDuckWithPipe(quack)\<close> builds the same object;
  the duck has exactly the properties \<open>fly\<close>, \<open>isFlying\<close>, \<open>land\<close> and \<open>quack\<close>, and
  \<open>duck.fly().quack()\<close> returns \<open>quack\<close>. \<open>withConfig({ initialConfig, logger })(o)\<close> is
  \<open>addConfig(initialConfig)\<close> applied to the output of \<open>withLogging(logger)\<close>, and its
  result has both \<open>log\<close> and \<open>get\<close>.
\<close>

lemma composed_factories:
  "createDuck q w = (quacking q (fst (flying Map.empty w)), snd (flying Map.empty w))
   \<and> createDuckWithPipe q w = createDuck q w
   \<and> dom (fst (createDuck q w)) = {fly, isFlying, land, quack}
   \<and> returned (then_call
        (call_method (fst (createDuck q w)) fly [] (snd (createDuck q w))) quack [])
     = Some (Val q)
   \<and> withConfig ic lg ob = addConfig ic (withLogging lg ob)
   \<and> withConfig ic lg ob log = Some (Log lg)
   \<and> withConfig ic lg ob get = Some (Get ic)"
proof -
  have pipe_eq: "createDuckWithPipe q w = createDuck q w"
    by (simp add: createDuckWithPipe_def createDuck_def pipe_def split: prod.split)
  have keys: "dom (fst (createDuck q w)) = {fly, isFlying, land, quack}"
    by (simp add: createDuck_unfold quacking_def flying_fst assign_def) blast
  have chain: "returned (then_call
        (call_method (fst (createDuck q w)) fly [] (snd (createDuck q w))) quack [])
      = Some (Val q)"
    by (simp add: createDuck_methods call_fly call_quack then_call_Ref returned_def)
  show ?thesis
    using pipe_eq keys chain
    by (simp add: createDuck_unfold [symmetric] withConfig_unfold [symmetric]
        withConfig_methods)
qed

text \<open>
  C2, as stated, fails on the source's own example \<open>bird = flying({})\<close>: in the world
  where \<open>bird\<close> was made, \<open>bird.isFlying()\<close> returns \<open>false\<close>, and after \<open>bird.fly()\<close> the
  same call returns \<open>true\<close>.
\<close>

theorem bird_isFlying_changes_after_fly:
  "returned (call_method (fst bird) isFlying [] (snd bird)) = Some (Val (JBool False))
   \<and> returned (then_call (call_method (fst bird) fly [] (snd bird)) isFlying [])
       = Some (Val (JBool True))"
  by (simp add: bird_def call_fly call_isFlying flying_methods then_call_Ref returned_def
      flying_snd)

text \<open>
  C2, amended. The \<open>flying\<close> mixin keeps state between calls. A call \<open>b1 = flying(o)\<close>
  creates one new variable, initially \<open>false\<close>, and changes nothing else. On the object
  it returns, \<open>isFlying()\<close> returns the current value of that variable and changes
  nothing, \<open>fly()\<close> sets that variable to \<open>true\<close> and \<open>land()\<close> sets it to \<open>false\<close>; both
  change nothing else and return the object. So \<open>b1.isFlying()\<close> returns \<open>false\<close> on the
  new object, \<open>true\<close> after \<open>b1.fly()\<close> and \<open>false\<close> again after \<open>b1.fly().land()\<close>.

  The variable belongs to the one object. After \<open>b1.fly()\<close>, a second object
  \<open>b2 = flying(o2)\<close> has a variable of its own: \<open>b1.isFlying()\<close> is still \<open>true\<close> and
  \<open>b2.isFlying()\<close> is \<open>false\<close>; \<open>b2.land()\<close> leaves \<open>b1.isFlying()\<close> at \<open>true\<close>; and after
  \<open>b2.fly(); b1.land()\<close>, \<open>b2.isFlying()\<close> is \<open>true\<close> and \<open>b1.isFlying()\<close> is \<open>false\<close>. In
  general, for an object \<open>b3 = flying(o3)\<close> made at another time (its variable is another
  cell), making \<open>b3\<close>, \<open>b3.fly()\<close> and \<open>b3.land()\<close> leave the answer of \<open>b1.isFlying()\<close> as
  it was.
\<close>

theorem flying_keeps_private_state:
  "(let b1 = fst (flying ob w);
        w1 = snd (flying ob w);
        wf = w\<lparr>cells := (cells w)(next_cell w := True), next_cell := Suc (next_cell w)\<rparr>;
        b2 = fst (flying ob_b wf);
        w2 = snd (flying ob_b wf);
        b3 = fst (flying ob_c w_c)
    in w1 = w\<lparr>cells := (cells w)(next_cell w := False), next_cell := Suc (next_cell w)\<rparr>
     \<and> call_method b1 isFlying [] w' = Some (Inr (Val (JBool (cells w' (next_cell w))), w'))
     \<and> call_method b1 fly [] w'
         = Some (Inr (Ref b1, w'\<lparr>cells := (cells w')(next_cell w := True)\<rparr>))
     \<and> call_method b1 land [] w'
         = Some (Inr (Ref b1, w'\<lparr>cells := (cells w')(next_cell w := False)\<rparr>))
     \<and> returned (call_method b1 isFlying [] w1) = Some (Val (JBool False))
     \<and> returned (then_call (call_method b1 fly [] w1) isFlying []) = Some (Val (JBool True))
     \<and> returned (then_call (then_call (call_method b1 fly [] w1) land []) isFlying [])
         = Some (Val (JBool False))
     \<and> call_method b1 fly [] w1 = Some (Inr (Ref b1, wf))
     \<and> returned (call_method b1 isFlying [] w2) = Some (Val (JBool True))
     \<and> returned (call_method b2 isFlying [] w2) = Some (Val (JBool False))
     \<and> returned (seq (call_method b2 land [] w2) (call_method b1 isFlying []))
         = Some (Val (JBool True))
     \<and> returned (seq (call_method b2 fly [] w2)
          (\<lambda>w. seq (call_method b1 land [] w) (call_method b2 isFlying [])))
         = Some (Val (JBool True))
     \<and> returned (seq (call_method b2 fly [] w2)
          (\<lambda>w. seq (call_method b1 land [] w) (call_method b1 isFlying [])))
         = Some (Val (JBool False))
     \<and> (next_cell w_c \<noteq> next_cell w \<longrightarrow>
          returned (call_method b1 isFlying [] (snd (flying ob_c w_c)))
            = returned (call_method b1 isFlying [] w_c)
          \<and> returned (seq (call_method b3 fly [] w') (call_method b1 isFlying []))
            = returned (call_method b1 isFlying [] w')
          \<and> returned (seq (call_method b3 land [] w') (call_method b1 isFlying []))
            = returned (call_method b1 isFlying [] w')))"
  by (simp add: Let_def call_fly call_land call_isFlying flying_methods then_call_Ref
      seq_Inr returned_def flying_snd)

text \<open>
  The general rule at the source's \<open>bird\<close> and a second object made after it: calling
  \<open>fly()\<close> on the second object leaves \<open>bird.isFlying()\<close> as it was.
\<close>

theorem flying_keeps_private_state_witness:
  "next_cell (snd bird) \<noteq> next_cell world0
   \<and> returned (seq (call_method (fst (flying Map.empty (snd bird))) fly []
                     (snd (flying Map.empty (snd bird))))
               (call_method (fst bird) isFlying []))
       = returned (call_method (fst bird) isFlying [] (snd (flying Map.empty (snd bird))))"
  using flying_keeps_private_state
    [where ob = Map.empty and w = world0 and ob_c = Map.empty and w_c = "snd bird"
       and w' = "snd (flying Map.empty (snd bird))" and ob_b = Map.empty]
  by (simp add: Let_def bird_def flying_snd world0_def)

text \<open>
  C3, as stated, fails on the source's own example: \<open>config.get('notThere')\<close> finds the
  key missing, reports \<open>Missing config key: notThere\<close> through the logger and returns
  \<open>undefined\<close>, while \<open>config.get('host')\<close> returns \<open>'localhost'\<close> and reports nothing.
\<close>

theorem config_get_reports_missing_key:
  "call_method config get ''notThere'' world0
     = Some (Inr (Val Undefined, world0\<lparr>console := [''Missing config key: notThere'']\<rparr>))
   \<and> call_method config get ''host'' world0
     = Some (Inr (Val (JStr ''localhost''), world0))"
  by (simp add: config_def initialConfig_def logger_def createConfig_def call_get
      withConfig_methods call_log object_literal_def Object_prototype_def
      loose_eq_undefined_def console_log_def world0_def)

text \<open>
  C3, amended. The object returned by \<open>createConfig\<close> handles a missing key: \<open>get(key)\<close>
  branches on \<open>config[key] == undefined\<close>, where \<open>config[key]\<close> is the property read of
  the configuration object (own and inherited properties). When that value is
  \<open>undefined\<close> or \<open>null\<close> it calls the logger once with \<open>Missing config key: \<close> followed by
  the key and returns \<open>undefined\<close>; otherwise it returns \<open>config[key]\<close> and does not call
  the logger. On the source's \<open>{ host: 'localhost' }\<close> the key \<open>toString\<close> is not missing:
  \<open>get('toString')\<close> returns the inherited function and reports nothing.
\<close>

theorem createConfig_get_handles_missing_key:
  "call_method (createConfig ic lg) get key w =
     (if loose_eq_undefined (ic key)
      then Some (Inr (Val Undefined, lg (''Missing config key: '' @ key) w))
      else Some (Inr (Val (ic key), w)))
   \<and> call_method config get ''toString'' world0
     = Some (Inr (Val (Builtin ''Object.prototype.toString''), world0))"
  by (simp add: createConfig_def call_get withConfig_methods call_log config_def
      initialConfig_def object_literal_def Object_prototype_def loose_eq_undefined_def)

end
